theory Spec2Isabelle
  imports Complex_Main
begin

section \<open>Strings and numbers of the scoring engine\<close>

text \<open>
  The engine is TypeScript. A string is modelled as a list of characters, each one code
  unit below 256. A \<open>number\<close> that counts something is an \<open>int\<close>; a number that carries a
  fraction (header quality, header points, a score handed to a grade table) is a \<open>rat\<close>.
  The arithmetic of the model is exact, where the source computes with doubles: the
  header points are sums of a few products of a weight below 26 and a quality or penalty
  written with one decimal. The values that the theorems below compute are integers, on
  which doubles are exact, or bounds that no rounding of this size can reach.
\<close>

fun startsWith :: "string \<Rightarrow> string \<Rightarrow> bool" where
  "startsWith s [] = True"
| "startsWith [] (c # t) = False"
| "startsWith (x # s) (c # t) = (x = c \<and> startsWith s t)"

fun str_includes :: "string \<Rightarrow> string \<Rightarrow> bool" where
  "str_includes [] t = (t = [])"
| "str_includes (x # s) t = (startsWith (x # s) t \<or> str_includes s t)"

definition toLowerChar :: "char \<Rightarrow> char" where
  "toLowerChar c =
     (let n = (of_char c :: nat)
      in if (65 \<le> n \<and> n \<le> 90) \<or> (192 \<le> n \<and> n \<le> 222 \<and> n \<noteq> 215)
         then char_of (n + 32) else c)"

definition toLowerCase :: "string \<Rightarrow> string" where
  "toLowerCase s = map toLowerChar s"

text \<open>
  A score that the calculator returns can be \<open>NaN\<close>, which is no integer; such a field is
  a \<open>jsnumber\<close>. A comparison with \<open>NaN\<close> is false.
\<close>

datatype jsnumber = Number int | NaN

fun num_ge :: "jsnumber \<Rightarrow> int \<Rightarrow> bool" where
  \<comment> \<open>\<open>x >= k\<close>\<close>
  "num_ge (Number n) k = (k \<le> n)"
| "num_ge NaN k = False"

fun num_lt :: "jsnumber \<Rightarrow> int \<Rightarrow> bool" where
  \<comment> \<open>\<open>x < k\<close>\<close>
  "num_lt (Number n) k = (n < k)"
| "num_lt NaN k = False"

definition Math_round :: "rat \<Rightarrow> int" where
  \<comment> \<open>\<open>Math.round\<close>: the nearest integer, a half rounded up.\<close>
  "Math_round x = \<lfloor>x + 1 / 2\<rfloor>"

section \<open>The realistic security calculator\<close>

type_synonym SecurityHeaders = "string \<rightharpoonup> string"

record VulnerabilityData =
  critical :: int
  high :: int
  medium :: int
  low :: int

datatype ContextType =
  Static | Dynamic | Ecommerce | Enterprise | Government | Api | SinglePageApp | Blog | Portfolio

record SiteContext =
  ctype :: ContextType
  hasUserGeneratedContent :: bool
  handlesFinancialData :: bool
  hasLoginSystem :: bool
  allowsFileUploads :: bool
  usesExternalAPIs :: bool
  hasThirdPartyIntegrations :: bool
  isPublicFacing :: bool
  usesHTTPS :: bool
  technologyStack :: "string option list"
  targetAudience :: string

record HeadersScore =
  present :: int
  missing :: int
  score :: int

text \<open>
  The baseline that the calculator reads from its table is a number of the table or, for
  a site type that is the name of a member every object inherits, that member: a function
  or an object.
\<close>

datatype BaselineValue = TableValue int | InheritedMember

record ScoreDetails =
  baseline :: BaselineValue
  headers :: HeadersScore
  vulnerabilities :: VulnerabilityData
  vulnerabilitiesScore :: int
  bonus :: int
  total :: jsnumber

record SecurityScore =
  overall :: jsnumber
  grade :: string
  riskLevel :: string
  details :: ScoreDetails

definition SITE_BASELINES :: "(string \<times> int) list" where
  "SITE_BASELINES =
     [(''ecommerce-standard'', 75),
      (''ecommerce-premium'', 85),
      (''enterprise-smb'', 70),
      (''enterprise-corporate'', 80),
      (''portfolio-professional'', 65),
      (''saas-platform'', 78),
      (''government'', 90),
      (''financial'', 95),
      (''healthcare'', 85),
      (''education'', 75),
      (''media-publisher'', 70),
      (''blog-influencer'', 60),
      (''landing-page-conversion'', 65),
      (''DEFAULT'', 80)]"

definition Object_prototype_names :: "string list" where
  \<comment> \<open>The names that the object literal \<open>SITE_BASELINES\<close> inherits from \<open>Object.prototype\<close>;
      each one names a function or, for \<open>__proto__\<close>, an object, and so a truthy value.\<close>
  "Object_prototype_names =
     [''constructor'', ''hasOwnProperty'', ''isPrototypeOf'', ''propertyIsEnumerable'',
      ''toLocaleString'', ''toString'', ''valueOf'', ''__proto__'',
      ''__defineGetter__'', ''__defineSetter__'', ''__lookupGetter__'', ''__lookupSetter__'']"

definition siteBaseline :: "string \<Rightarrow> BaselineValue" where
  \<comment> \<open>\<open>SITE_BASELINES[siteType] || SITE_BASELINES.DEFAULT\<close>: the property read finds the keys
      of the table and the inherited names; \<open>||\<close> replaces a falsy value only.\<close>
  "siteBaseline siteType =
     (case map_of SITE_BASELINES siteType of
        Some b \<Rightarrow> if b \<noteq> 0 then TableValue b else TableValue 80
      | None \<Rightarrow>
          if siteType \<in> set Object_prototype_names then InheritedMember else TableValue 80)"

datatype Criticality = CRITICAL | HIGH | MEDIUM | LOW

definition HEADER_WEIGHTS :: "(string \<times> rat \<times> Criticality) list" where
  "HEADER_WEIGHTS =
     [(''content-security-policy'', 25, CRITICAL),
      (''strict-transport-security'', 20, CRITICAL),
      (''x-frame-options'', 15, HIGH),
      (''x-content-type-options'', 12, HIGH),
      (''referrer-policy'', 8, MEDIUM),
      (''permissions-policy'', 6, MEDIUM),
      (''x-xss-protection'', 3, LOW)]"

definition evaluateCSPQuality :: "string \<Rightarrow> rat" where
  "evaluateCSPQuality cspValue =
     (let goodPractices = [''default-src'', ''script-src'', ''style-src''];
          hasNonces = (str_includes cspValue ''nonce-'' \<or> str_includes cspValue ''sha256-'');
          hasUnsafeInline = str_includes cspValue [CHR 0x27, CHR ''u'', CHR ''n'', CHR ''s'',
            CHR ''a'', CHR ''f'', CHR ''e'', CHR ''-'', CHR ''i'', CHR ''n'', CHR ''l'',
            CHR ''i'', CHR ''n'', CHR ''e'', CHR 0x27];
          score0 = 1 / 2;
          score1 = fold (\<lambda>directive s. if str_includes cspValue directive then s + 1 / 5 else s)
                     goodPractices score0;
          score2 = (if \<not> hasUnsafeInline then score1 + 3 / 10 else score1);
          score3 = (if hasNonces then score2 + 1 / 5 else score2)
      in min 1 score3)"

definition evaluateHSTSQuality :: "string \<Rightarrow> rat" where
  "evaluateHSTSQuality hstsValue =
     (let hasMaxAge = str_includes hstsValue ''max-age='';
          hasIncludeSubDomains = str_includes hstsValue ''includeSubDomains'';
          hasPreload = str_includes hstsValue ''preload'';
          score0 = 3 / 10;
          score1 = (if hasMaxAge then score0 + 3 / 10 else score0);
          score2 = (if hasIncludeSubDomains then score1 + 1 / 5 else score1);
          score3 = (if hasPreload then score2 + 1 / 5 else score2)
      in min 1 score3)"

definition evaluateHeaderQuality :: "string \<Rightarrow> string \<Rightarrow> rat" where
  "evaluateHeaderQuality headerName v =
     (if headerName = ''content-security-policy'' then evaluateCSPQuality v
      else if headerName = ''strict-transport-security'' then evaluateHSTSQuality v
      else if headerName = ''x-frame-options''
        then (if str_includes v ''DENY'' \<or> str_includes v ''SAMEORIGIN'' then 1 else 7 / 10)
      else (if v \<noteq> [] then 1 else 0))"

definition static_site_modifiers :: "(string \<times> rat) list" where
  "static_site_modifiers =
     [(''content-security-policy'', 3 / 10),
      (''referrer-policy'', 1 / 2),
      (''permissions-policy'', 2 / 5),
      (''x-xss-protection'', 1 / 10)]"

definition api_only_modifiers :: "(string \<times> rat) list" where
  "api_only_modifiers =
     [(''content-security-policy'', 0),
      (''x-frame-options'', 0),
      (''referrer-policy'', 1 / 5)]"

definition blog_portfolio_modifiers :: "(string \<times> rat) list" where
  "blog_portfolio_modifiers =
     [(''content-security-policy'', 2 / 5),
      (''x-frame-options'', 3 / 10),
      (''referrer-policy'', 11 / 10)]"

definition calculateMissingHeaderPenalty ::
  "string \<Rightarrow> Criticality \<Rightarrow> SiteContext option \<Rightarrow> rat" where
  "calculateMissingHeaderPenalty headerName criticality context =
     (case context of
        None \<Rightarrow> 1
      | Some c \<Rightarrow>
          (let modifiers0 = map_of static_site_modifiers;
               modifiers1 = (if ctype c = Api \<or> ctype c = Enterprise
                             then modifiers0 ++ map_of api_only_modifiers else modifiers0);
               modifiers2 = (if ctype c = Blog \<or> ctype c = Portfolio
                             then modifiers1 ++ map_of blog_portfolio_modifiers else modifiers1)
           in case modifiers2 headerName of
                Some modifier \<Rightarrow> 1 * modifier
              | None \<Rightarrow> 1))"

definition headerStep ::
  "SecurityHeaders \<Rightarrow> SiteContext option \<Rightarrow> string \<times> rat \<times> Criticality \<Rightarrow> rat \<times> rat \<Rightarrow> rat \<times> rat" where
  \<comment> \<open>One turn of the loop over \<open>HEADER_WEIGHTS\<close>; the state is (presentPoints, missingPoints).
      An empty header value is falsy, so it counts as a missing header.\<close>
  "headerStep hdrs context entry acc =
     (case entry of (headerName, weight, criticality) \<Rightarrow>
        (case acc of (presentPoints, missingPoints) \<Rightarrow>
           (case hdrs headerName of
              Some v \<Rightarrow>
                if v \<noteq> [] then (presentPoints + weight * evaluateHeaderQuality headerName v, missingPoints)
                else (presentPoints,
                      missingPoints + weight * calculateMissingHeaderPenalty headerName criticality context)
            | None \<Rightarrow>
                (presentPoints,
                 missingPoints + weight * calculateMissingHeaderPenalty headerName criticality context))))"

definition evaluateHeadersRealistically :: "SecurityHeaders \<Rightarrow> SiteContext option \<Rightarrow> HeadersScore" where
  "evaluateHeadersRealistically hdrs context =
     (case fold (headerStep hdrs context) HEADER_WEIGHTS (0, 0) of
        (presentPoints, missingPoints) \<Rightarrow>
          \<lparr> present = Math_round presentPoints,
            missing = Math_round missingPoints,
            score = Math_round (presentPoints + missingPoints) \<rparr>)"

definition VULNERABILITY_PENALTIES :: "Criticality \<Rightarrow> int" where
  "VULNERABILITY_PENALTIES c = (case c of CRITICAL \<Rightarrow> 25 | HIGH \<Rightarrow> 12 | MEDIUM \<Rightarrow> 5 | LOW \<Rightarrow> 2)"

definition evaluateVulnerabilitiesRealistically :: "VulnerabilityData \<Rightarrow> int" where
  "evaluateVulnerabilitiesRealistically vulns =
     (let totalPenalty0 = (0::int);
          totalPenalty1 = (if critical vulns > 0
             then totalPenalty0 + VULNERABILITY_PENALTIES CRITICAL * min (critical vulns) 3
             else totalPenalty0);
          totalPenalty2 = (if high vulns > 0
             then totalPenalty1 + VULNERABILITY_PENALTIES HIGH * min (high vulns) 5
             else totalPenalty1);
          totalPenalty3 = (if medium vulns > 0
             then totalPenalty2 + VULNERABILITY_PENALTIES MEDIUM * min (medium vulns) 8
             else totalPenalty2);
          totalPenalty4 = (if low vulns > 0
             then totalPenalty3 + VULNERABILITY_PENALTIES LOW * min (low vulns) 10
             else totalPenalty3)
      in - Math_round (of_int (min totalPenalty4 30)))"

definition calculateContextualBonus ::
  "SecurityHeaders \<Rightarrow> VulnerabilityData \<Rightarrow> SiteContext option \<Rightarrow> int" where
  "calculateContextualBonus hdrs vulns context =
     (let bonus0 = (0::int);
          bonus1 = (case hdrs ''strict-transport-security'' of
                      Some v \<Rightarrow> if str_includes v ''max-age'' then bonus0 + 5 else bonus0
                    | None \<Rightarrow> bonus0);
          totalVulns = critical vulns + high vulns + medium vulns + low vulns;
          bonus2 = (if totalVulns = 0 then bonus1 + 3
                    else if totalVulns \<le> 2 then bonus1 + 1 else bonus1)
      in case context of
           None \<Rightarrow> bonus2
         | Some c \<Rightarrow>
             (let bonus3 = (if (ctype c = Blog \<or> ctype c = Portfolio) \<and> \<not> hasUserGeneratedContent c
                            then bonus2 + 2 else bonus2)
              in if \<not> handlesFinancialData c \<and> \<not> hasLoginSystem c \<and> \<not> allowsFileUploads c
                 then bonus3 + 3 else bonus3))"

definition calculateGrade :: "rat \<Rightarrow> string" where
  "calculateGrade s =
     (if s \<ge> 95 then ''A+''
      else if s \<ge> 90 then ''A''
      else if s \<ge> 85 then ''A-''
      else if s \<ge> 80 then ''B+''
      else if s \<ge> 75 then ''B''
      else if s \<ge> 70 then ''B-''
      else if s \<ge> 65 then ''C+''
      else if s \<ge> 60 then ''C''
      else if s \<ge> 55 then ''C-''
      else if s \<ge> 50 then ''D''
      else ''F'')"

definition calculateRiskLevel :: "rat \<Rightarrow> VulnerabilityData \<Rightarrow> string" where
  "calculateRiskLevel s vulns =
     (let hasCriticalVulns = (critical vulns > 0);
          hasHighVulns = (high vulns > 0)
      in if s \<ge> 85 \<and> \<not> hasCriticalVulns \<and> high vulns \<le> 1 then ''Bajo''
         else if s \<ge> 70 \<and> \<not> hasCriticalVulns then ''Medio''
         else if s \<ge> 50 \<or> high vulns > 2 then ''Alto''
         else ''Cr'' @ [CHR 0xED] @ ''tico'')"

definition calculateRealisticScore ::
  "SecurityHeaders \<Rightarrow> VulnerabilityData \<Rightarrow> string \<Rightarrow> SiteContext option \<Rightarrow> SecurityScore" where
  \<comment> \<open>With a number as baseline the sum is a sum of integers. With an inherited member as
      baseline \<open>+\<close> concatenates strings, \<open>Math.min(100, ...)\<close> of that string is \<open>NaN\<close>, and
      so are \<open>total\<close> and \<open>overall\<close>; every comparison of \<open>calculateGrade\<close> and
      \<open>calculateRiskLevel\<close> with \<open>NaN\<close> is false, which leaves the grade F and the test
      \<open>vulnerabilities.high > 2\<close>.\<close>
  "calculateRealisticScore hdrs vulns siteType context =
     (let baseline' = siteBaseline siteType;
          headersScore = evaluateHeadersRealistically hdrs context;
          vulnScore = evaluateVulnerabilitiesRealistically vulns;
          bonusScore = calculateContextualBonus hdrs vulns context
      in case baseline' of
           TableValue b \<Rightarrow>
             (let total' = max 0 (min 100 (b + score headersScore + vulnScore + bonusScore));
                  grade' = calculateGrade (of_int total');
                  riskLevel' = calculateRiskLevel (of_int total') vulns
              in \<lparr> overall = Number (Math_round (of_int total')),
                   grade = grade',
                   riskLevel = riskLevel',
                   details = \<lparr> baseline = baseline',
                               headers = headersScore,
                               vulnerabilities = vulns,
                               vulnerabilitiesScore = vulnScore,
                               bonus = bonusScore,
                               total = Number total' \<rparr> \<rparr>)
         | InheritedMember \<Rightarrow>
             \<lparr> overall = NaN,
               grade = ''F'',
               riskLevel = (if high vulns > 2 then ''Alto'' else ''Cr'' @ [CHR 0xED] @ ''tico''),
               details = \<lparr> baseline = baseline',
                           headers = headersScore,
                           vulnerabilities = vulns,
                           vulnerabilitiesScore = vulnScore,
                           bonus = bonusScore,
                           total = NaN \<rparr> \<rparr>)"

definition getScoreGrade :: "rat \<Rightarrow> string" where
  "getScoreGrade s =
     (if s \<ge> 95 then ''A+''
      else if s \<ge> 90 then ''A''
      else if s \<ge> 85 then ''A-''
      else if s \<ge> 80 then ''B+''
      else if s \<ge> 75 then ''B''
      else if s \<ge> 70 then ''B-''
      else if s \<ge> 65 then ''C+''
      else if s \<ge> 60 then ''C''
      else if s \<ge> 55 then ''C-''
      else if s \<ge> 50 then ''D''
      else ''F'')"


section \<open>The false-positive filter\<close>

datatype Severity = Sev_low | Sev_medium | Sev_high | Sev_critical

text \<open>
  A finding as the main application declares it (\<open>VulnerableTechnology\<close>). The filter takes
  \<open>any[]\<close> and also reads a \<open>context\<close> field, which the declared type does not have: it is
  optional here.
\<close>

record VulnerableTechnology =
  name :: string
  version :: string
  vulnerability :: string
  severity :: Severity
  lineNumbers :: "nat list option"
  recommendation :: "string option"
  vcontext :: "string option"

definition vendorScripts :: "string list" where
  "vendorScripts =
     [''googletagmanager'', ''gtm'', ''tag manager'',
      ''intercom'', ''widget.intercom.io'',
      ''google'', ''maps.googleapis.com'',
      ''clarity.ms'', ''analytics'',
      ''pendo'', ''zapier'', ''stripe'']"

definition vendorConsole :: "string list" where
  "vendorConsole =
     [''google maps javascript api'',
      ''only loads once'',
      ''already loaded'',
      ''library'',
      ''vendor'',
      ''third-party'']"

definition keepFinding :: "VulnerableTechnology \<Rightarrow> bool" where
  \<comment> \<open>The callback of \<open>vulnerabilities.filter\<close>: \<open>False\<close> drops the finding.\<close>
  "keepFinding vuln =
     (let vulnText = toLowerCase (vulnerability vuln);
          contextText = toLowerCase (case vcontext vuln of Some c \<Rightarrow> c | None \<Rightarrow> []);
          isVendorScript = list_ex (\<lambda>vendor. str_includes contextText vendor \<or> str_includes vulnText vendor)
                             vendorScripts;
          isVendorConsole = list_ex (\<lambda>pattern. str_includes contextText pattern \<or> str_includes vulnText pattern)
                              vendorConsole;
          hasTryCatch = (str_includes contextText ''try'' \<and> str_includes contextText ''catch'');
          hasErrorHandling = (str_includes contextText ''catch (e)'' \<or> str_includes contextText ''catch(e)'');
          isParsingCode = (str_includes contextText ''getparametername'' \<or>
                           str_includes contextText ''getparameter'' \<or>
                           str_includes contextText ''parse'' \<or>
                           str_includes contextText ''extract'' \<or>
                           str_includes contextText ''match'');
          isGoogleSafe = (str_includes vulnText ''google'' \<or>
                          str_includes vulnText ''gtm'' \<or>
                          str_includes vulnText ''tag manager'' \<or>
                          str_includes vulnText ''maps api'' \<or>
                          str_includes vulnText ''analytics'' \<or>
                          str_includes vulnText ''firebase'' \<or>
                          str_includes vulnText ''gapi'');
          isDevSafe = (str_includes vulnText ''debug mode'' \<or>
                       str_includes vulnText ''development'');
          isSafeInnerHTML = (str_includes vulnText ''innerhtml'' \<and>
                             (str_includes vulnText ''hardcoded'' \<or>
                              str_includes vulnText ''safe'' \<or>
                              str_includes vulnText ''sanitized''))
      in if str_includes vulnText ''document.write'' \<and> isVendorScript then False
         else if str_includes vulnText ''console.'' \<and> isVendorConsole then False
         else if str_includes vulnText ''json.parse'' \<and> (hasTryCatch \<or> hasErrorHandling) then False
         else if (str_includes vulnText ''regexp'' \<or> str_includes vulnText ''.exec('') \<and> isParsingCode
           then False
         else \<not> isGoogleSafe \<and> \<not> isDevSafe \<and> \<not> isSafeInnerHTML)"

definition filterFalsePositives :: "VulnerableTechnology list \<Rightarrow> VulnerableTechnology list" where
  "filterFalsePositives vulns = filter keepFinding vulns"

section \<open>The site classifier and the privacy score of the main application\<close>

text \<open>
  \<open>determineSiteType\<close> and \<open>generateSiteContext\<close> take \<open>data: any\<close>. The main application
  passes a \<open>ScrapedData\<close>, whose technology list holds records with a name; the methods
  call \<open>includes\<close> with a string on that list, which finds string elements only. An element
  of the list is therefore either a string or a record.

  Reading a property of an undefined value raises a \<open>TypeError\<close>. The declared type of the
  page record requires all its fields, and the main application sets them; a record that
  lacks one can only come from outside it. Such records are part of the model where they
  decide what \<open>calculatePrivacyScore\<close> does: the field \<open>ecommerce\<close>, which
  \<open>determineSiteType\<close> guards against being undefined and \<open>generateSiteContext\<close> does
  not, and every object and array that the \<open>catch\<close> block of \<open>calculatePrivacyScore\<close>
  reads into: \<open>securityAnalysis\<close> and its \<open>securityHeaders\<close>, \<open>sslAnalysis\<close> and
  \<open>vulnerableTechnologies\<close>. Fields that no function of this theory reads are left out of
  the records.
\<close>

datatype Technology =
  TechString string
| TechRecord (tech_name: string) (tech_version: "string option") (tech_currentVersion: "string option")

record EcommerceData =
  paymentMethods :: "string list"
  totalProducts :: int

record UsersDetected =
  hasUsers :: bool
  accessPoints :: "string list"

record HeaderDetail =
  d_present :: bool
  d_valid :: bool
  d_content :: string

record DetailedHeaders =
  d_csp :: "HeaderDetail option"
  d_hsts :: "HeaderDetail option"
  d_xssProtection :: "HeaderDetail option"
  d_referrerPolicy :: "HeaderDetail option"
  d_frameOptions :: "HeaderDetail option"

record ScrapedSecurityHeaders =
  csp :: bool
  hsts :: bool
  xss :: bool
  contentType :: bool
  detailed :: "DetailedHeaders option"

record SSLAnalysis =
  hasSSL :: bool
  validCertificate :: bool
  tlsVersion :: string
  httpsEnabled :: bool

record SecurityAnalysis =
  securityHeaders :: "ScrapedSecurityHeaders option"
  sslAnalysis :: "SSLAnalysis option"
  vulnerableTechnologies :: "VulnerableTechnology list option"
  privacyScore :: int
  externalLinks :: int
  imagesWithoutAlt :: int
  cookiesDetected :: int

record ScrapedData =
  title :: string
  url :: string
  technologies :: "Technology list"
  ecommerce :: "EcommerceData option"
  usersDetected :: UsersDetected
  securityAnalysis :: "SecurityAnalysis option"

datatype error = TypeError

definition techIncludes :: "Technology list \<Rightarrow> string \<Rightarrow> bool" where
  \<comment> \<open>\<open>data.technologies.includes(s)\<close>: equality with the string \<open>s\<close>; a record is never equal to it.\<close>
  "techIncludes ts s = list_ex (\<lambda>t. t = TechString s) ts"

definition determineSiteType :: "ScrapedData \<Rightarrow> string" where
  "determineSiteType data =
     (if (case ecommerce data of Some e \<Rightarrow> totalProducts e > 0 | None \<Rightarrow> False)
        then (case ecommerce data of
                Some e \<Rightarrow> if totalProducts e > 50 then ''ecommerce-premium'' else ''ecommerce-standard''
              | None \<Rightarrow> ''ecommerce-standard'')
      else if techIncludes (technologies data) ''React'' \<or> techIncludes (technologies data) ''Vue.js''
        then ''saas-platform''
      else if hasUsers (usersDetected data) \<and> length (accessPoints (usersDetected data)) > 3
        then ''enterprise-corporate''
      else if title data \<noteq> [] \<and> (str_includes (title data) ''blog'' \<or> str_includes (title data) ''portfolio'')
        then ''portfolio-professional''
      else ''enterprise-smb'')"

definition mapSiteTypeToContext :: "string \<Rightarrow> ContextType" where
  "mapSiteTypeToContext siteType =
     (case map_of
        [(''ecommerce-standard'', Enterprise),
         (''ecommerce-premium'', Enterprise),
         (''enterprise-smb'', Enterprise),
         (''enterprise-corporate'', Enterprise),
         (''saas-platform'', Enterprise),
         (''portfolio-professional'', Portfolio),
         (''blog-influencer'', Blog)] siteType of
        Some t \<Rightarrow> t
      | None \<Rightarrow> Enterprise)"

definition generateSiteContext :: "ScrapedData \<Rightarrow> string \<Rightarrow> error + SiteContext" where
  \<comment> \<open>The object literal reads \<open>data.ecommerce.paymentMethods\<close>,
      \<open>data.securityAnalysis.externalLinks\<close> and \<open>data.securityAnalysis.sslAnalysis.httpsEnabled\<close>;
      each read raises when the object before the last dot is undefined.\<close>
  "generateSiteContext data siteType =
     (case ecommerce data of
        None \<Rightarrow> Inl TypeError
      | Some e \<Rightarrow>
     (case securityAnalysis data of
        None \<Rightarrow> Inl TypeError
      | Some sa \<Rightarrow>
     (case sslAnalysis sa of
        None \<Rightarrow> Inl TypeError
      | Some ssl \<Rightarrow>
          Inr \<lparr> ctype = mapSiteTypeToContext siteType,
                hasUserGeneratedContent = hasUsers (usersDetected data),
                handlesFinancialData = (length (paymentMethods e) > 0),
                hasLoginSystem = hasUsers (usersDetected data),
                allowsFileUploads = (techIncludes (technologies data) ''PHP'' \<or>
                                     techIncludes (technologies data) ''Node.js''),
                usesExternalAPIs = (externalLinks sa > 5),
                hasThirdPartyIntegrations = (externalLinks sa > 3),
                isPublicFacing = True,
                usesHTTPS = httpsEnabled ssl,
                technologyStack = map (\<lambda>t. case t of TechString s \<Rightarrow> None
                                                    | TechRecord n v c \<Rightarrow> Some n) (technologies data),
                targetAudience = ''general'' \<rparr>)))"

definition detailContent :: "DetailedHeaders option \<Rightarrow> (DetailedHeaders \<Rightarrow> HeaderDetail option) \<Rightarrow> string option" where
  \<comment> \<open>\<open>headers.detailed?.f?.present ? headers.detailed.f.content : undefined\<close>\<close>
  "detailContent d f =
     (case d of
        None \<Rightarrow> None
      | Some dh \<Rightarrow> (case f dh of
                     None \<Rightarrow> None
                   | Some h \<Rightarrow> if d_present h then Some (d_content h) else None))"

definition normalizedHeaders :: "ScrapedSecurityHeaders \<Rightarrow> SecurityHeaders" where
  "normalizedHeaders h =
     (Map.empty)
       (''content-security-policy'' := detailContent (detailed h) d_csp,
        ''strict-transport-security'' := detailContent (detailed h) d_hsts,
        ''x-frame-options'' := detailContent (detailed h) d_frameOptions,
        ''x-content-type-options'' := (if contentType h then Some ''nosniff'' else None),
        ''referrer-policy'' := detailContent (detailed h) d_referrerPolicy,
        ''permissions-policy'' := None,
        ''x-xss-protection'' := detailContent (detailed h) d_xssProtection)"

definition countSeverity :: "Severity \<Rightarrow> VulnerableTechnology list \<Rightarrow> int" where
  \<comment> \<open>\<open>vs.filter(v => v.severity === s).length\<close>\<close>
  "countSeverity s vs = int (length (filter (\<lambda>v. severity v = s) vs))"

definition calculatePrivacyScore_primary :: "ScrapedData \<Rightarrow> error + jsnumber" where
  \<comment> \<open>The \<open>try\<close> block of \<open>calculatePrivacyScore\<close>; \<open>Inl\<close> is a raised exception.
      \<open>filterFalsePositives\<close> calls \<open>filter\<close> on the list of findings and the normalisation
      reads \<open>headers.detailed\<close>: both raise on an undefined value.\<close>
  "calculatePrivacyScore_primary data =
     (let siteType = determineSiteType data
      in case generateSiteContext data siteType of
           Inl e \<Rightarrow> Inl e
         | Inr siteContext \<Rightarrow>
        (case securityAnalysis data of
           None \<Rightarrow> Inl TypeError
         | Some sa \<Rightarrow>
        (case vulnerableTechnologies sa of
           None \<Rightarrow> Inl TypeError
         | Some vts \<Rightarrow>
        (case securityHeaders sa of
           None \<Rightarrow> Inl TypeError
         | Some hs \<Rightarrow>
             (let filteredVulnerabilities = filterFalsePositives vts;
                  normalizedVulnerabilities =
                    \<lparr> critical = countSeverity Sev_critical filteredVulnerabilities,
                      high = countSeverity Sev_high filteredVulnerabilities,
                      medium = countSeverity Sev_medium filteredVulnerabilities,
                      low = countSeverity Sev_low filteredVulnerabilities \<rparr>;
                  securityScore = calculateRealisticScore
                    (normalizedHeaders hs) normalizedVulnerabilities siteType (Some siteContext)
              in Inr (overall securityScore))))))"

definition calculatePrivacyScore_fallback :: "ScrapedData \<Rightarrow> error + jsnumber" where
  \<comment> \<open>The \<open>catch\<close> block of \<open>calculatePrivacyScore\<close>. It reads
      \<open>data.securityAnalysis.securityHeaders.csp\<close> first, then
      \<open>data.securityAnalysis.sslAnalysis.httpsEnabled\<close>, then calls \<open>filter\<close> on
      \<open>data.securityAnalysis.vulnerableTechnologies\<close>; each raises on an undefined object.\<close>
  "calculatePrivacyScore_fallback data =
     (case securityAnalysis data of
        None \<Rightarrow> Inl TypeError
      | Some sa \<Rightarrow>
     (case securityHeaders sa of
        None \<Rightarrow> Inl TypeError
      | Some hs \<Rightarrow>
     (case sslAnalysis sa of
        None \<Rightarrow> Inl TypeError
      | Some ssl \<Rightarrow>
     (case vulnerableTechnologies sa of
        None \<Rightarrow> Inl TypeError
      | Some vts \<Rightarrow>
          (let score0 = (80::int);
               score1 = (if csp hs then score0 + 10 else score0);
               score2 = (if hsts hs then score1 + 8 else score1);
               score3 = (if xss hs then score2 + 5 else score2);
               score4 = (if contentType hs then score3 + 3 else score3);
               score5 = (if httpsEnabled ssl then score4 + 12 else score4);
               criticalVulns = countSeverity Sev_critical vts;
               highVulns = countSeverity Sev_high vts;
               mediumVulns = countSeverity Sev_medium vts;
               score6 = score5 - min (criticalVulns * 15) 25;
               score7 = score6 - min (highVulns * 8) 20;
               score8 = score7 - min (mediumVulns * 3) 10;
               score9 = (if httpsEnabled ssl then max score8 65 else score8)
           in Inr (Number (max 0 (min 100 (Math_round (of_int score9))))))))))"

definition calculatePrivacyScore :: "ScrapedData \<Rightarrow> error + jsnumber" where
  \<comment> \<open>\<open>Inl\<close> is an exception that leaves \<open>calculatePrivacyScore\<close>.\<close>
  "calculatePrivacyScore data =
     (case calculatePrivacyScore_primary data of
        Inr s \<Rightarrow> Inr s
      | Inl e \<Rightarrow> calculatePrivacyScore_fallback data)"

section \<open>The credential scanner of the main application\<close>

subsection \<open>Regular expressions\<close>

text \<open>
  The scanner is written with JavaScript regular expressions. A pattern is a value of
  \<open>regex\<close>, built as the literal is written; \<open>ms ic r s\<close> lists, in the order in which a
  backtracking matcher tries them, the rests of \<open>s\<close> after a match of \<open>r\<close> at the start of
  \<open>s\<close> (\<open>ic\<close> is the flag \<open>i\<close>). A quantifier is greedy and is \<open>Rep lo hi r\<close>, with
  \<open>hi = None\<close> for no upper bound; every quantified pattern of the scanner consumes a
  character in each turn, and a turn that consumes nothing is not taken. With the flag
  \<open>i\<close> two characters are the same when their upper-case forms are.
\<close>

definition toUpperChar :: "char \<Rightarrow> char" where
  "toUpperChar c =
     (let n = (of_char c :: nat)
      in if (97 \<le> n \<and> n \<le> 122) \<or> (224 \<le> n \<and> n \<le> 254 \<and> n \<noteq> 247)
         then char_of (n - 32) else c)"

datatype regex =
  Lit string
| Set "(char \<times> char) list"
| NotSet "(char \<times> char) list"
| Seq regex regex
| Alt regex regex
| Rep nat "nat option" regex
| NegLookahead regex

definition inRanges :: "(char \<times> char) list \<Rightarrow> char \<Rightarrow> bool" where
  "inRanges rs c =
     list_ex (\<lambda>(lo, hi). (of_char lo :: nat) \<le> of_char c \<and> (of_char c :: nat) \<le> of_char hi) rs"

definition inSet :: "bool \<Rightarrow> (char \<times> char) list \<Rightarrow> char \<Rightarrow> bool" where
  "inSet ic rs c =
     (inRanges rs c \<or> (ic \<and> (inRanges rs (toUpperChar c) \<or> inRanges rs (toLowerChar c))))"

definition sameChar :: "bool \<Rightarrow> char \<Rightarrow> char \<Rightarrow> bool" where
  "sameChar ic a b = (if ic then toUpperChar a = toUpperChar b else a = b)"

fun matchLit :: "bool \<Rightarrow> string \<Rightarrow> string \<Rightarrow> string list" where
  "matchLit ic [] s = [s]"
| "matchLit ic (a # w) [] = []"
| "matchLit ic (a # w) (c # s) = (if sameChar ic a c then matchLit ic w s else [])"

primrec repeat :: "(string \<Rightarrow> string list) \<Rightarrow> nat \<Rightarrow> nat option \<Rightarrow> nat \<Rightarrow> string \<Rightarrow> string list" where
  "repeat f lo hi 0 s = (if lo = 0 then [s] else [])"
| "repeat f lo hi (Suc n) s =
     (if hi = Some 0 then [s]
      else concat (map (\<lambda>s'. if length s' < length s
                               then repeat f (lo - 1) (map_option (\<lambda>h. h - 1) hi) n s' else [])
                       (f s))
           @ (if lo = 0 then [s] else []))"

primrec ms :: "bool \<Rightarrow> regex \<Rightarrow> string \<Rightarrow> string list" where
  "ms ic (Lit w) s = matchLit ic w s"
| "ms ic (Set rs) s = (case s of [] \<Rightarrow> [] | c # t \<Rightarrow> if inSet ic rs c then [t] else [])"
| "ms ic (NotSet rs) s = (case s of [] \<Rightarrow> [] | c # t \<Rightarrow> if \<not> inSet ic rs c then [t] else [])"
| "ms ic (Seq a b) s = concat (map (ms ic b) (ms ic a s))"
| "ms ic (Alt a b) s = ms ic a s @ ms ic b s"
| "ms ic (Rep lo hi r) s = repeat (ms ic r) lo hi (length s) s"
| "ms ic (NegLookahead r) s = (if ms ic r s = [] then [s] else [])"

definition matchAt :: "bool \<Rightarrow> regex \<Rightarrow> string \<Rightarrow> string option" where
  \<comment> \<open>The text matched at the start of \<open>s\<close>: the first alternative the matcher finds.\<close>
  "matchAt ic r s =
     (case ms ic r s of [] \<Rightarrow> None | rest # _ \<Rightarrow> Some (take (length s - length rest) s))"

fun search :: "bool \<Rightarrow> regex \<Rightarrow> string \<Rightarrow> string option" where
  \<comment> \<open>\<open>s.match(r)\<close> without the flag \<open>g\<close>: the text of the leftmost match.\<close>
  "search ic r [] = matchAt ic r []"
| "search ic r (c # t) = (case matchAt ic r (c # t) of Some m \<Rightarrow> Some m | None \<Rightarrow> search ic r t)"

definition test :: "bool \<Rightarrow> regex \<Rightarrow> string \<Rightarrow> bool" where
  \<comment> \<open>\<open>r.test(s)\<close> with \<open>lastIndex = 0\<close>.\<close>
  "test ic r s = (search ic r s \<noteq> None)"

fun scanAll :: "bool \<Rightarrow> regex \<Rightarrow> nat \<Rightarrow> string \<Rightarrow> string list" where
  \<comment> \<open>\<open>skip\<close> characters still belong to the match before.\<close>
  "scanAll ic r skip [] =
     (if skip = 0 then (case matchAt ic r [] of Some m \<Rightarrow> [m] | None \<Rightarrow> []) else [])"
| "scanAll ic r skip (c # t) =
     (if skip > 0 then scanAll ic r (skip - 1) t
      else case matchAt ic r (c # t) of
             Some m \<Rightarrow> m # scanAll ic r (length m - 1) t
           | None \<Rightarrow> scanAll ic r 0 t)"

definition matchAll :: "bool \<Rightarrow> regex \<Rightarrow> string \<Rightarrow> string list" where
  \<comment> \<open>\<open>s.match(r)\<close> with the flag \<open>g\<close>: the texts of all matches, left to right;
      the empty list stands for \<open>null\<close>.\<close>
  "matchAll ic r s = scanAll ic r 0 s"

definition fullMatch :: "regex \<Rightarrow> string \<Rightarrow> bool" where
  \<comment> \<open>\<open>/^r$/.test(s)\<close>\<close>
  "fullMatch r s = list_ex (\<lambda>rest. rest = []) (ms False r s)"

definition seqs :: "regex list \<Rightarrow> regex" where
  "seqs rs = foldr Seq rs (Lit [])"

fun alts :: "regex \<Rightarrow> regex list \<Rightarrow> regex" where
  "alts r [] = r"
| "alts r (x # xs) = Alt r (alts x xs)"

definition dq :: char where "dq = CHR 0x22"

definition sq :: char where "sq = CHR 0x27"

definition quote :: "(char \<times> char) list" where
  \<comment> \<open>the characters of \<open>["']\<close>\<close>
  "quote = [(dq, dq), (sq, sq)]"

definition whitespace :: "(char \<times> char) list" where
  \<comment> \<open>\<open>\s\<close>, on the characters below 256\<close>
  "whitespace = [(CHR 0x09, CHR 0x0D), (CHR 0x20, CHR 0x20), (CHR 0xA0, CHR 0xA0)]"

definition digit :: "(char \<times> char) list" where
  "digit = [(CHR ''0'', CHR ''9'')]"

definition alnum :: "(char \<times> char) list" where
  \<comment> \<open>\<open>a-zA-Z0-9\<close>\<close>
  "alnum = [(CHR ''a'', CHR ''z''), (CHR ''A'', CHR ''Z''), (CHR ''0'', CHR ''9'')]"

definition upperDigit :: "(char \<times> char) list" where
  \<comment> \<open>\<open>A-Z0-9\<close>\<close>
  "upperDigit = [(CHR ''A'', CHR ''Z''), (CHR ''0'', CHR ''9'')]"

definition underscoreDash :: "(char \<times> char) list" where
  \<comment> \<open>\<open>_-\<close>\<close>
  "underscoreDash = [(CHR ''_'', CHR ''_''), (CHR ''-'', CHR ''-'')]"

subsection \<open>The patterns\<close>

definition mapsKeyPattern :: regex where
  \<comment> \<open>\<open>/^AIzaSy[a-zA-Z0-9_-]{35}$/\<close>, the Google Maps API key\<close>
  "mapsKeyPattern = seqs [Lit ''AIzaSy'', Rep 35 (Some 35) (Set (alnum @ underscoreDash))]"

definition safePatterns :: "regex list" where
  \<comment> \<open>Each pattern is anchored with \<open>^\<close> and \<open>$\<close> in the source and is used with \<open>fullMatch\<close>.\<close>
  "safePatterns =
     [mapsKeyPattern,
      seqs [Lit ''GTM-'', Rep 6 (Some 8) (Set upperDigit)],
      seqs [Lit ''UA-'', Rep 4 None (Set digit), Lit ''-'', Rep 1 None (Set digit)],
      seqs [Lit ''G-'', Rep 8 None (Set upperDigit)],
      seqs [Lit ''firebase'', Rep 0 (Some 1) (Set underscoreDash), Rep 0 None (Set (alnum @ underscoreDash))],
      seqs [Lit ''pk_test_'', Rep 24 None (Set alnum)],
      seqs [Lit ''pk_live_'', Rep 24 None (Set alnum)],
      seqs [Lit ''fb'', Rep 13 None (Set digit)],
      seqs [Lit ''ca'', Rep 19 (Some 19) (Set digit)],
      seqs [Lit ''ghp_'', Rep 36 (Some 36) (Set alnum)],
      seqs [Lit ''eyJ'', Rep 0 None (Set (alnum @ underscoreDash))],
      Rep 32 (Some 32) (Set (alnum @ underscoreDash)),
      Rep 40 (Some 40) (Set (alnum @ underscoreDash))]"

definition isSafeKnownPattern :: "string \<Rightarrow> bool" where
  "isSafeKnownPattern text = list_ex (\<lambda>pattern. fullMatch pattern text) safePatterns"

definition keyAssignment :: "regex list" where
  \<comment> \<open>\<open>["']?\s*[:=]\s*["']\<close>, the part shared by the first five credential patterns\<close>
  "keyAssignment =
     [Rep 0 (Some 1) (Set quote), Rep 0 None (Set whitespace), Set [(CHR '':'', CHR '':''), (CHR ''='', CHR ''='')],
      Rep 0 None (Set whitespace), Set quote]"

definition apiKeyPattern :: regex where
  "apiKeyPattern =
     seqs ([Lit ''api'', Rep 0 (Some 1) (Set underscoreDash), Lit ''key''] @ keyAssignment @
           [NegLookahead (alts (Lit ''AIzaSy'') [Lit ''GTM-'', Lit ''UA-'', Lit ''G-'', Lit ''fb'', Lit ''ghp_'']),
            Rep 32 None (Set alnum), Set quote])"

definition secretKeyPattern :: regex where
  "secretKeyPattern =
     seqs ([Lit ''secret'', Rep 0 (Some 1) (Set underscoreDash), Lit ''key''] @ keyAssignment @
           [NegLookahead (alts (Lit ''AIzaSy'') [Lit ''GTM-'']),
            Rep 32 None (Set alnum), Set quote])"

definition tokenPattern :: regex where
  "tokenPattern =
     seqs ([Lit ''token''] @ keyAssignment @
           [NegLookahead (alts (Lit ''GTM-'') [Lit ''AIzaSy'', Lit ''google'', Lit ''fb'', Lit ''ghp_'',
                                               Lit ''UA-'', Lit ''G-'', Lit ''ca-'', Lit ''pk_'']),
            Rep 20 None (Set alnum), Set quote])"

definition passwordPattern :: regex where
  "passwordPattern =
     seqs ([Lit ''password''] @ keyAssignment @ [Rep 6 None (NotSet quote), Set quote])"

definition privateKeyPattern :: regex where
  "privateKeyPattern =
     seqs ([Lit ''private'', Rep 0 (Some 1) (Set underscoreDash), Lit ''key''] @ keyAssignment @
           [Lit ''-----BEGIN '', Rep 1 None (Set [(CHR ''A'', CHR ''Z''), (CHR '' '', CHR '' '')]),
            Lit ''-----''])"

definition stripeSecretPattern :: regex where
  "stripeSecretPattern = seqs [Lit ''sk_live_'', Rep 24 None (Set alnum)]"

definition stripePublicPattern :: regex where
  "stripePublicPattern = seqs [Lit ''pk_live_'', Rep 24 None (Set alnum)]"

definition githubTokenPattern :: regex where
  "githubTokenPattern = seqs [Lit ''ghp_'', Rep 36 (Some 36) (Set alnum)]"

text \<open>
  The table of the scanner: pattern (every one with the flags \<open>gi\<close>), vulnerability,
  severity, exploitation and recommendation.
\<close>

definition credentialPatterns :: "(regex \<times> string \<times> Severity \<times> string \<times> string) list" where
  "credentialPatterns =
     [(apiKeyPattern,
       ''Hardcoded API Key detected (NO Google APIs)'',
       Sev_critical,
       ''API keys hardcodeadas exponen acceso no autorizado a servicios externos'',
       ''Mover API keys a variables de entorno o archivos de configuraci'' @ [CHR 0xF3] @ ''n seguros''),
      (secretKeyPattern,
       ''Hardcoded Secret Key detected (NO Google)'',
       Sev_critical,
       ''Claves secretas hardcodeadas permiten acceso no autorizado y escalada de privilegios'',
       ''Usar variables de entorno y sistemas de gesti'' @ [CHR 0xF3] @ ''n de secretos''),
      (tokenPattern,
       ''Hardcoded Authentication Token detected (excluding safe patterns)'',
       Sev_high,
       ''Tokens de autenticaci'' @ [CHR 0xF3] @ ''n hardcodeados permiten bypass de autenticaci'' @ [CHR 0xF3] @ ''n'',
       ''Almacenar tokens de forma segura y rotar regularmente''),
      (passwordPattern,
       ''Hardcoded Password detected'',
       Sev_critical,
       ''Contrase'' @ [CHR 0xF1] @ ''as hardcodeadas exponen acceso directo a sistemas y bases de datos'',
       ''Usar sistemas de autenticaci'' @ [CHR 0xF3] @ ''n seguros y hashing de contrase'' @ [CHR 0xF1] @ ''as''),
      (privateKeyPattern,
       ''Hardcoded Private Key detected'',
       Sev_critical,
       ''Claves privadas hardcodeadas permiten decriptaci'' @ [CHR 0xF3] @ ''n y suplantaci'' @ [CHR 0xF3] @ ''n de identidad'',
       ''Usar gesti'' @ [CHR 0xF3] @ ''n segura de claves criptogr'' @ [CHR 0xE1] @ ''ficas''),
      (stripeSecretPattern,
       ''Stripe Live Secret Key exposed'',
       Sev_critical,
       ''Clave secreta de Stripe permite acceso completo a transacciones financieras'',
       ''Rotar clave inmediatamente y usar webhooks para validaci'' @ [CHR 0xF3] @ ''n''),
      (stripePublicPattern,
       ''Stripe Live Public Key exposed'',
       Sev_medium,
       ''Clave p'' @ [CHR 0xFA] @ ''blica de Stripe permite identificaci'' @ [CHR 0xF3] @ ''n pero es menos cr'' @ [CHR 0xED] @ ''tica'',
       ''Verificar que sea solo clave p'' @ [CHR 0xFA] @ ''blica y no secreta''),
      (githubTokenPattern,
       ''GitHub Personal Access Token exposed'',
       Sev_critical,
       ''Token de GitHub permite acceso completo a repositorios y organizaci'' @ [CHR 0xF3] @ ''n'',
       ''Revocar token inmediatamente y usar tokens con permisos limitados'')]"

subsection \<open>The scan\<close>

definition quotedValue :: regex where
  \<comment> \<open>\<open>/["']([^"']+)["']/\<close>; its group is the match without the first and the last character.\<close>
  "quotedValue = seqs [Set quote, Rep 1 None (NotSet quote), Set quote]"

definition keyValueOf :: "string \<Rightarrow> string option" where
  \<comment> \<open>\<open>keyValueMatch && keyValueMatch[1]\<close> for \<open>keyValueMatch = s.match(quotedValue)\<close>\<close>
  "keyValueOf s =
     (case search False quotedValue s of
        None \<Rightarrow> None
      | Some m \<Rightarrow> (let g = butlast (tl m) in if g \<noteq> [] then Some g else None))"

definition isLegitimateService :: "string \<Rightarrow> bool" where
  "isLegitimateService keyValue =
     (str_includes (toLowerCase keyValue) ''google'' \<or>
      str_includes (toLowerCase keyValue) ''firebase'' \<or>
      str_includes (toLowerCase keyValue) ''gtm'' \<or>
      str_includes (toLowerCase keyValue) ''analytics'' \<or>
      startsWith (toLowerCase keyValue) ''pk_'' \<or>
      startsWith (toLowerCase keyValue) ''ua-'' \<or>
      startsWith (toLowerCase keyValue) ''g-'')"

definition keepMatch :: "string \<Rightarrow> bool" where
  \<comment> \<open>The callback of \<open>matches.filter\<close>: \<open>False\<close> discards the match.\<close>
  "keepMatch m =
     (case keyValueOf m of
        Some keyValue \<Rightarrow>
          if isSafeKnownPattern keyValue then False
          else if isLegitimateService keyValue then False
          else True
      | None \<Rightarrow> True)"

definition lineReported :: "regex \<Rightarrow> string \<Rightarrow> bool" where
  \<comment> \<open>Whether the loop over the lines pushes the number of this line.\<close>
  "lineReported pattern line =
     (if test True pattern line
      then (case keyValueOf line of
              Some keyValue \<Rightarrow> \<not> isSafeKnownPattern keyValue
            | None \<Rightarrow> True)
      else False)"

fun splitLines :: "string \<Rightarrow> string list" where
  \<comment> \<open>\<open>html.split('\n')\<close>\<close>
  "splitLines [] = [[]]"
| "splitLines (c # s) =
     (if c = CHR 0x0A then [] # splitLines s
      else (case splitLines s of l # ls \<Rightarrow> (c # l) # ls | [] \<Rightarrow> [[c]]))"

fun numToString :: "nat \<Rightarrow> string" where
  "numToString n =
     (if n < 10 then [char_of (48 + n)]
      else numToString (n div 10) @ [char_of (48 + n mod 10)])"

declare numToString.simps [simp del]

fun joinStr :: "string \<Rightarrow> string list \<Rightarrow> string" where
  "joinStr sep [] = []"
| "joinStr sep [x] = x"
| "joinStr sep (x # y # r) = x @ sep @ joinStr sep (y # r)"

definition scanCredentialPattern ::
  "string \<Rightarrow> regex \<times> string \<times> Severity \<times> string \<times> string \<Rightarrow> VulnerableTechnology list" where
  \<comment> \<open>One turn of \<open>credentialPatterns.forEach\<close>: the findings it pushes. The name of a
      finding starts with a key emoji in the source, a character outside the modelled
      range, which is left out.\<close>
  "scanCredentialPattern html entry =
     (case entry of (pattern, vulnerability', severity', exploitation, recommendation') \<Rightarrow>
        (let matches = matchAll True pattern html
         in if matches \<noteq> [] then
              (let safeMatches = filter keepMatch matches
               in if length safeMatches > 0 then
                    (let lines = splitLines html;
                         foundLines = map fst (filter (\<lambda>(i, line). lineReported pattern line)
                                                 (enumerate 1 lines))
                     in if length foundLines > 0 then
                          [\<lparr> name = '' HARDCODED CREDENTIAL'',
                             version = ''L'' @ [CHR 0xED] @ ''neas: ''
                                       @ joinStr '', '' (map numToString (take 3 foundLines))
                                       @ (if length foundLines > 3 then ''...'' else []),
                             vulnerability = vulnerability' @ '' - '' @ exploitation,
                             severity = severity',
                             lineNumbers = Some foundLines,
                             recommendation = Some recommendation',
                             vcontext = None \<rparr>]
                        else [])
                  else [])
            else []))"

definition credentialFindings :: "string \<Rightarrow> VulnerableTechnology list" where
  \<comment> \<open>The findings of the credential pass of \<open>detectVulnerableTechnologies\<close>.\<close>
  "credentialFindings html = concat (map (scanCredentialPattern html) credentialPatterns)"


section \<open>Notions used to state the properties\<close>

text \<open>The order of the letter grades, worst first, and the rank of a grade in it.\<close>

definition gradeTable :: "string list" where
  "gradeTable = [''F'', ''D'', ''C-'', ''C'', ''C+'', ''B-'', ''B'', ''B+'', ''A-'', ''A'', ''A+'']"

definition gradeRank :: "string \<Rightarrow> nat" where
  "gradeRank g =
     (if g = ''A+'' then 10 else if g = ''A'' then 9 else if g = ''A-'' then 8
      else if g = ''B+'' then 7 else if g = ''B'' then 6 else if g = ''B-'' then 5
      else if g = ''C+'' then 4 else if g = ''C'' then 3 else if g = ''C-'' then 2
      else if g = ''D'' then 1 else 0)"

text \<open>A tracked header is present when the evaluator finds a non-empty value for it.\<close>

definition headerPresent :: "SecurityHeaders \<Rightarrow> string \<Rightarrow> bool" where
  "headerPresent hdrs n = (case hdrs n of Some v \<Rightarrow> v \<noteq> [] | None \<Rightarrow> False)"

text \<open>
  The header score in the words of the specification: the sum of weight times quality
  over the present headers, minus the sum of weight times contextual penalty over the
  absent ones.
\<close>

definition spec_headerScore :: "SecurityHeaders \<Rightarrow> SiteContext option \<Rightarrow> rat" where
  "spec_headerScore hdrs context =
     (\<Sum>(n, w, c) \<leftarrow> filter (\<lambda>(n, w, c). headerPresent hdrs n) HEADER_WEIGHTS.
         case hdrs n of Some v \<Rightarrow> w * evaluateHeaderQuality n v | None \<Rightarrow> 0)
   - (\<Sum>(n, w, c) \<leftarrow> filter (\<lambda>(n, w, c). \<not> headerPresent hdrs n) HEADER_WEIGHTS.
         w * calculateMissingHeaderPenalty n c context)"

subsection \<open>Example inputs\<close>

definition example_all_headers :: SecurityHeaders where
  "example_all_headers = map_of
     [(''content-security-policy'', ''default-src https:''),
      (''strict-transport-security'', ''max-age=31536000; includeSubDomains; preload''),
      (''x-frame-options'', ''DENY''),
      (''x-content-type-options'', ''nosniff''),
      (''referrer-policy'', ''no-referrer''),
      (''permissions-policy'', ''geolocation=()''),
      (''x-xss-protection'', ''1; mode=block'')]"

definition no_vulnerabilities :: VulnerabilityData where
  "no_vulnerabilities = \<lparr> critical = 0, high = 0, medium = 0, low = 0 \<rparr>"

definition example_security_analysis :: SecurityAnalysis where
  "example_security_analysis =
     \<lparr> securityHeaders = Some \<lparr> csp = False, hsts = False, xss = False, contentType = False,
                                 detailed = None \<rparr>,
       sslAnalysis = Some \<lparr> hasSSL = True, validCertificate = True, tlsVersion = ''TLS 1.2+'',
                            httpsEnabled = True \<rparr>,
       vulnerableTechnologies = Some [],
       privacyScore = 0,
       externalLinks = 0,
       imagesWithoutAlt = 0,
       cookiesDetected = 0 \<rparr>"

definition example_react_site :: ScrapedData where
  "example_react_site =
     \<lparr> title = ''Dashboard'',
       url = ''https://app.example.com'',
       technologies = [TechRecord ''React'' (Some ''18.2.0'') (Some ''18.2.0'')],
       ecommerce = Some \<lparr> paymentMethods = [], totalProducts = 0 \<rparr>,
       usersDetected = \<lparr> hasUsers = False, accessPoints = [] \<rparr>,
       securityAnalysis = Some example_security_analysis \<rparr>"













definition example_maps_key :: string where
  "example_maps_key = ''AIzaSyA1234567890123456789012345678901234''"

definition example_password_html :: string where
  \<comment> \<open>the one-line page \<open>"password": "AIzaSyA1234567890123456789012345678901234"\<close>\<close>
  "example_password_html = [dq] @ ''password'' @ [dq] @ '': '' @ [dq] @ example_maps_key @ [dq]"

definition example_password_html_bare :: string where
  \<comment> \<open>the one-line page \<open>password: "AIzaSyA1234567890123456789012345678901234"\<close>\<close>
  "example_password_html_bare = ''password: '' @ [dq] @ example_maps_key @ [dq]"

section \<open>Rounding and clamping\<close>

lemma Math_round_of_int: "Math_round (of_int n) = n"
  unfolding Math_round_def by linarith

lemma Math_round_numeral: "Math_round (numeral k) = numeral k"
  using Math_round_of_int [of "numeral k"] by simp

lemma Math_round_mono: "x \<le> y \<Longrightarrow> Math_round x \<le> Math_round y"
  unfolding Math_round_def by (simp add: floor_mono)


lemma clamp_floor: "65 \<le> max 0 (min 100 (max (s::int) 65))"
  by simp

section \<open>The overall score\<close>

text \<open>
  For a site type that is not an inherited name the baseline is a number, the value of
  the table or the default 80, and the overall score is the clamp to [0,100] of baseline +
  header score + vulnerability penalty + contextual bonus.
\<close>

lemma siteBaseline_number:
  assumes "siteType \<notin> set Object_prototype_names"
  shows "siteBaseline siteType =
     TableValue (case map_of SITE_BASELINES siteType of Some b \<Rightarrow> b | None \<Rightarrow> 80)"
proof (cases "map_of SITE_BASELINES siteType")
  case None
  with assms show ?thesis by (simp add: siteBaseline_def)
next
  case (Some b)
  then have "(siteType, b) \<in> set SITE_BASELINES" by (rule map_of_SomeD)
  then have "b \<noteq> 0" by (auto simp: SITE_BASELINES_def)
  with Some show ?thesis by (simp add: siteBaseline_def)
qed

lemma overall_of_table_value:
  assumes "siteBaseline siteType = TableValue b"
  shows "overall (calculateRealisticScore hdrs vulns siteType context) =
     Number (max 0 (min 100 (b + score (evaluateHeadersRealistically hdrs context)
        + evaluateVulnerabilitiesRealistically vulns + calculateContextualBonus hdrs vulns context)))"
  by (simp add: calculateRealisticScore_def Let_def assms Math_round_of_int)

lemma overall_clamp_own_site_types:
  assumes "siteType \<notin> set Object_prototype_names"
  shows "overall (calculateRealisticScore hdrs vulns siteType context) =
     Number (max 0 (min 100 ((case map_of SITE_BASELINES siteType of Some b \<Rightarrow> b | None \<Rightarrow> 80)
        + score (evaluateHeadersRealistically hdrs context)
        + evaluateVulnerabilitiesRealistically vulns + calculateContextualBonus hdrs vulns context)))"
  using siteBaseline_number [OF assms] by (rule overall_of_table_value)

lemma overall_in_range_own_site_types:
  assumes "siteType \<notin> set Object_prototype_names"
  shows "num_ge (overall (calculateRealisticScore hdrs vulns siteType context)) 0
    \<and> \<not> num_lt (overall (calculateRealisticScore hdrs vulns siteType context)) 0
    \<and> \<not> num_ge (overall (calculateRealisticScore hdrs vulns siteType context)) 101"
  unfolding overall_clamp_own_site_types [OF assms] by simp

lemma overall_of_inherited_member:
  assumes "siteBaseline siteType = InheritedMember"
  shows "overall (calculateRealisticScore hdrs vulns siteType context) = NaN"
  by (simp add: calculateRealisticScore_def Let_def assms)

lemma overall_never_below_zero:
  "\<not> num_lt (overall (calculateRealisticScore hdrs vulns siteType context)) 0"
proof (cases "siteBaseline siteType")
  case (TableValue b)
  show ?thesis unfolding overall_of_table_value [OF TableValue] by simp
next
  case InheritedMember
  show ?thesis unfolding overall_of_inherited_member [OF InheritedMember] by simp
qed

text \<open>
  C1. The site type "toString" is no key of \<open>SITE_BASELINES\<close>, but the table inherits a
  member of that name, a function, which \<open>||\<close> does not replace by the default. Whatever the
  headers, the counts and the context, the overall score is then \<open>NaN\<close>: it is not the
  clamp of a sum and it is not at least 0.
\<close>

theorem calculateRealisticScore_inherited_site_type:
  "map_of SITE_BASELINES ''toString'' = None
   \<and> siteBaseline ''toString'' = InheritedMember
   \<and> overall (calculateRealisticScore hdrs vulns ''toString'' context) = NaN
   \<and> \<not> num_ge (overall (calculateRealisticScore hdrs vulns ''toString'' context)) 0"
proof -
  have k: "map_of SITE_BASELINES ''toString'' = None"
    by (simp add: SITE_BASELINES_def)
  have b: "siteBaseline ''toString'' = InheritedMember"
    by (simp add: siteBaseline_def k Object_prototype_names_def)
  show ?thesis
    unfolding overall_of_inherited_member [OF b] using k b by simp
qed

section \<open>The vulnerability penalty\<close>

lemma tier_penalty:
  "0 \<le> cap \<Longrightarrow> (if c > 0 then t + w * min c cap else t) = t + w * min (max 0 c) (cap::int)"
  by (cases "c > 0") (simp_all add: min_def max_def)

lemma vulnerability_penalty_formula:
  "evaluateVulnerabilitiesRealistically vulns =
      - min (25 * min (max 0 (critical vulns)) 3 + 12 * min (max 0 (high vulns)) 5
           + 5 * min (max 0 (medium vulns)) 8 + 2 * min (max 0 (low vulns)) 10) 30"
  unfolding evaluateVulnerabilitiesRealistically_def Let_def Math_round_of_int
    VULNERABILITY_PENALTIES_def Criticality.case
  by (simp only: tier_penalty [of 3] tier_penalty [of 5] tier_penalty [of 8] tier_penalty [of 10]) simp

lemma vulnerability_penalty_range:
  "- 30 \<le> evaluateVulnerabilitiesRealistically vulns
   \<and> evaluateVulnerabilitiesRealistically vulns \<le> 0"
proof -
  define X where "X = 25 * min (max 0 (critical vulns)) 3 + 12 * min (max 0 (high vulns)) 5
           + 5 * min (max 0 (medium vulns)) 8 + 2 * min (max 0 (low vulns)) 10"
  have e: "evaluateVulnerabilitiesRealistically vulns = - min X 30"
    unfolding X_def by (rule vulnerability_penalty_formula)
  have "0 \<le> 25 * min (max 0 (critical vulns)) 3" "0 \<le> 12 * min (max 0 (high vulns)) 5"
    "0 \<le> 5 * min (max 0 (medium vulns)) 8" "0 \<le> 2 * min (max 0 (low vulns)) 10"
    by simp_all
  then have "0 \<le> X" unfolding X_def by linarith
  then show ?thesis unfolding e by simp
qed

lemma four_critical_tier:
  "evaluateVulnerabilitiesRealistically (vulns\<lparr>critical := 4\<rparr>) =
     - min (3 * 25 + 12 * min (max 0 (high vulns)) 5
           + 5 * min (max 0 (medium vulns)) 8 + 2 * min (max 0 (low vulns)) 10) 30"
  unfolding vulnerability_penalty_formula by simp

lemma four_critical_penalty:
  "evaluateVulnerabilitiesRealistically (vulns\<lparr>critical := 4\<rparr>) = - 30"
proof -
  have "0 \<le> 12 * min (max 0 (high vulns)) 5"
    "0 \<le> 5 * min (max 0 (medium vulns)) 8" "0 \<le> 2 * min (max 0 (low vulns)) 10"
    by simp_all
  then have "30 \<le> 3 * 25 + 12 * min (max 0 (high vulns)) 5
           + 5 * min (max 0 (medium vulns)) 8 + 2 * min (max 0 (low vulns)) 10" by linarith
  then show ?thesis unfolding four_critical_tier by (simp only: min_absorb2)
qed

text \<open>
  C2. The vulnerability penalty is minus the sum, capped at 30, of 25 per critical finding
  for at most 3 of them, 12 per high finding for at most 5, 5 per medium finding for at
  most 8 and 2 per low finding for at most 10. With 4 critical findings the critical tier
  contributes 3 * 25 and not 4 * 25 and the penalty is -30. With these findings and no
  header at all the overall score is a number that is at least 0 for every site type
  that is not an inherited name, and for no site type at all is it below 0.
\<close>

theorem vulnerability_penalty_capped:
  "evaluateVulnerabilitiesRealistically vulns =
      - min (25 * min (max 0 (critical vulns)) 3 + 12 * min (max 0 (high vulns)) 5
           + 5 * min (max 0 (medium vulns)) 8 + 2 * min (max 0 (low vulns)) 10) 30
   \<and> - 30 \<le> evaluateVulnerabilitiesRealistically vulns
   \<and> evaluateVulnerabilitiesRealistically vulns \<le> 0
   \<and> evaluateVulnerabilitiesRealistically (vulns\<lparr>critical := 4\<rparr>) =
       - min (3 * 25 + 12 * min (max 0 (high vulns)) 5
           + 5 * min (max 0 (medium vulns)) 8 + 2 * min (max 0 (low vulns)) 10) 30
   \<and> evaluateVulnerabilitiesRealistically (vulns\<lparr>critical := 4\<rparr>) = - 30
   \<and> (siteType \<notin> set Object_prototype_names \<longrightarrow>
        num_ge (overall (calculateRealisticScore Map.empty (vulns\<lparr>critical := 4\<rparr>) siteType context)) 0)
   \<and> \<not> num_lt (overall (calculateRealisticScore Map.empty (vulns\<lparr>critical := 4\<rparr>) siteType context)) 0"
proof -
  have r: "siteType \<notin> set Object_prototype_names \<longrightarrow>
        num_ge (overall (calculateRealisticScore Map.empty (vulns\<lparr>critical := 4\<rparr>) siteType context)) 0"
    using overall_in_range_own_site_types [of siteType Map.empty "vulns\<lparr>critical := 4\<rparr>" "context"]
    by blast
  show ?thesis
    by (intro conjI vulnerability_penalty_formula conjunct1 [OF vulnerability_penalty_range]
        conjunct2 [OF vulnerability_penalty_range] four_critical_tier four_critical_penalty
        r overall_never_below_zero)
qed

text \<open>
  With 4 critical findings, no header and the site type "enterprise-smb", which is not an
  inherited name, the penalty is -30 and the overall score is at least 0.
\<close>

theorem vulnerability_penalty_capped_witness:
  "''enterprise-smb'' \<notin> set Object_prototype_names
   \<and> evaluateVulnerabilitiesRealistically (no_vulnerabilities\<lparr>critical := 4\<rparr>) = - 30
   \<and> num_ge (overall (calculateRealisticScore Map.empty (no_vulnerabilities\<lparr>critical := 4\<rparr>)
         ''enterprise-smb'' None)) 0"
proof -
  note t = vulnerability_penalty_capped [of no_vulnerabilities "''enterprise-smb''" None]
  have h: "''enterprise-smb'' \<notin> set Object_prototype_names"
    by (simp add: Object_prototype_names_def)
  have p: "evaluateVulnerabilitiesRealistically (no_vulnerabilities\<lparr>critical := 4\<rparr>) = - 30"
    by (rule t [THEN conjunct2, THEN conjunct2, THEN conjunct2, THEN conjunct2, THEN conjunct1])
  have i: "''enterprise-smb'' \<notin> set Object_prototype_names \<longrightarrow>
      num_ge (overall (calculateRealisticScore Map.empty (no_vulnerabilities\<lparr>critical := 4\<rparr>)
         ''enterprise-smb'' None)) 0"
    by (rule t [THEN conjunct2, THEN conjunct2, THEN conjunct2, THEN conjunct2, THEN conjunct2,
          THEN conjunct1])
  from i h have g: "num_ge (overall (calculateRealisticScore Map.empty
      (no_vulnerabilities\<lparr>critical := 4\<rparr>) ''enterprise-smb'' None)) 0"
    by (rule mp)
  from h p g show ?thesis by (intro conjI)
qed

section \<open>The header score\<close>

text \<open>
  C3. With no header at all and no site context every tracked header is absent with
  penalty 1, and the weights sum to 89. The evaluator adds the points of the absent
  headers to the score, so it returns 89, where the sum over present headers minus the
  sum over absent headers is -89.
\<close>

theorem header_score_adds_missing_points:
  "score (evaluateHeadersRealistically Map.empty None) = 89
   \<and> spec_headerScore Map.empty None = - 89"
  by code_simp


section \<open>The fallback of the privacy score\<close>





text \<open>
  Each of the fields is needed: when \<open>securityAnalysis\<close>, or its \<open>securityHeaders\<close>, its
  \<open>sslAnalysis\<close> or its list of findings is missing, both blocks raise and the exception
  leaves \<open>calculatePrivacyScore\<close>.
\<close>

lemma fallback_raises_without_fields:
  assumes "securityAnalysis data = None \<or>
    (\<exists>sa. securityAnalysis data = Some sa \<and>
       (securityHeaders sa = None \<or> sslAnalysis sa = None \<or> vulnerableTechnologies sa = None))"
  shows "calculatePrivacyScore_fallback data = Inl TypeError"
proof (cases "securityAnalysis data")
  case None
  then show ?thesis by (simp add: calculatePrivacyScore_fallback_def)
next
  case (Some sa)
  with assms have d: "securityHeaders sa = None \<or> sslAnalysis sa = None \<or> vulnerableTechnologies sa = None"
    by simp
  have "(case securityHeaders sa of None \<Rightarrow> Inl TypeError
         | Some hs \<Rightarrow> (case sslAnalysis sa of None \<Rightarrow> Inl TypeError
             | Some ssl \<Rightarrow> (case vulnerableTechnologies sa of None \<Rightarrow> Inl TypeError
                 | Some vts \<Rightarrow> g hs ssl vts))) = Inl TypeError"
    for g :: "ScrapedSecurityHeaders \<Rightarrow> SSLAnalysis \<Rightarrow> VulnerableTechnology list \<Rightarrow> error + jsnumber"
    using d by (cases "securityHeaders sa"; cases "sslAnalysis sa"; cases "vulnerableTechnologies sa") simp_all
  then show ?thesis
    unfolding calculatePrivacyScore_fallback_def Some option.case .
qed

lemma generateSiteContext_Inr:
  assumes "generateSiteContext data t = Inr c"
  shows "\<exists>sa ssl. securityAnalysis data = Some sa \<and> sslAnalysis sa = Some ssl"
proof (cases "ecommerce data")
  case None
  with assms show ?thesis by (simp add: generateSiteContext_def)
next
  case e: (Some e)
  show ?thesis
  proof (cases "securityAnalysis data")
    case None
    with assms e show ?thesis by (simp add: generateSiteContext_def)
  next
    case sa: (Some sa)
    show ?thesis
    proof (cases "sslAnalysis sa")
      case None
      with assms e sa show ?thesis by (simp add: generateSiteContext_def)
    next
      case (Some ssl)
      with sa show ?thesis by simp
    qed
  qed
qed

lemma primary_raises_without_fields:
  assumes "securityAnalysis data = None \<or>
    (\<exists>sa. securityAnalysis data = Some sa \<and>
       (securityHeaders sa = None \<or> sslAnalysis sa = None \<or> vulnerableTechnologies sa = None))"
  shows "calculatePrivacyScore_primary data = Inl TypeError"
proof (cases "generateSiteContext data (determineSiteType data)")
  case (Inl e)
  moreover have "e = TypeError" by (cases e)
  ultimately show ?thesis
    unfolding calculatePrivacyScore_primary_def Let_def by simp
next
  case (Inr c)
  from generateSiteContext_Inr [OF Inr]
  obtain sa ssl where sa: "securityAnalysis data = Some sa" and ssl: "sslAnalysis sa = Some ssl"
    by blast
  with assms have d: "securityHeaders sa = None \<or> vulnerableTechnologies sa = None"
    by simp
  have "(case vulnerableTechnologies sa of
         None \<Rightarrow> Inl TypeError
       | Some vts \<Rightarrow> (case securityHeaders sa of None \<Rightarrow> Inl TypeError | Some hs \<Rightarrow> g vts hs))
      = Inl TypeError" for g :: "VulnerableTechnology list \<Rightarrow> ScrapedSecurityHeaders \<Rightarrow> error + jsnumber"
    using d by (cases "vulnerableTechnologies sa"; cases "securityHeaders sa") simp_all
  then show ?thesis
    unfolding calculatePrivacyScore_primary_def Let_def Inr sa sum.case option.case .
qed

lemma calculatePrivacyScore_raises_without_fields:
  assumes "securityAnalysis data = None \<or>
    (\<exists>sa. securityAnalysis data = Some sa \<and>
       (securityHeaders sa = None \<or> sslAnalysis sa = None \<or> vulnerableTechnologies sa = None))"
  shows "calculatePrivacyScore data = Inl TypeError"
  unfolding calculatePrivacyScore_def primary_raises_without_fields [OF assms] sum.case
  by (rule fallback_raises_without_fields [OF assms])


section \<open>The false-positive filter is idempotent\<close>

text \<open>
  C6. Applying \<open>filterFalsePositives\<close> to a list it has already filtered returns that
  list unchanged.
\<close>

theorem filterFalsePositives_idempotent:
  "filterFalsePositives (filterFalsePositives v) = filterFalsePositives v"
  by (simp add: filterFalsePositives_def)

section \<open>A clean site of type enterprise-smb\<close>

lemma csp_quality_lower: "1 / 2 \<le> evaluateCSPQuality v"
proof -
  have f: "\<And>(s::rat) b. 1 / 2 \<le> s \<Longrightarrow> 1 / 2 \<le> (if b then s + 1 / 5 else s)" by simp
  have g: "\<And>(s::rat) b. 1 / 2 \<le> s \<Longrightarrow> 1 / 2 \<le> (if b then s + 3 / 10 else s)" by simp
  show ?thesis
    unfolding evaluateCSPQuality_def Let_def fold_simps comp_def id_def
    by (intro min.boundedI f g) simp_all
qed

lemma hsts_quality_lower: "3 / 10 \<le> evaluateHSTSQuality v"
proof -
  have f: "\<And>(s::rat) b k. 0 \<le> k \<Longrightarrow> 3 / 10 \<le> s \<Longrightarrow> 3 / 10 \<le> (if b then s + k else s)" by simp
  show ?thesis
    unfolding evaluateHSTSQuality_def Let_def
    by (intro min.boundedI f) simp_all
qed

lemma headerStep_present:
  "hdrs n = Some v \<Longrightarrow> v \<noteq> [] \<Longrightarrow>
   headerStep hdrs context (n, w, c) (p, m) = (p + w * evaluateHeaderQuality n v, m)"
  by (simp add: headerStep_def)

lemma headerPresentE:
  "headerPresent hdrs n \<Longrightarrow> (\<And>v. hdrs n = Some v \<Longrightarrow> v \<noteq> [] \<Longrightarrow> P) \<Longrightarrow> P"
  by (auto simp: headerPresent_def split: option.splits)

lemma all_present_score:
  assumes "list_all (\<lambda>(n, w, c). headerPresent hdrs n) HEADER_WEIGHTS"
  shows "58 \<le> score (evaluateHeadersRealistically hdrs context)"
proof -
  from assms have p:
    "headerPresent hdrs ''content-security-policy''"
    "headerPresent hdrs ''strict-transport-security''"
    "headerPresent hdrs ''x-frame-options''"
    "headerPresent hdrs ''x-content-type-options''"
    "headerPresent hdrs ''referrer-policy''"
    "headerPresent hdrs ''permissions-policy''"
    "headerPresent hdrs ''x-xss-protection''"
    by (simp_all add: HEADER_WEIGHTS_def)
  from p(1) obtain v1 where v1: "hdrs ''content-security-policy'' = Some v1" "v1 \<noteq> []"
    by (rule headerPresentE)
  from p(2) obtain v2 where v2: "hdrs ''strict-transport-security'' = Some v2" "v2 \<noteq> []"
    by (rule headerPresentE)
  from p(3) obtain v3 where v3: "hdrs ''x-frame-options'' = Some v3" "v3 \<noteq> []"
    by (rule headerPresentE)
  from p(4) obtain v4 where v4: "hdrs ''x-content-type-options'' = Some v4" "v4 \<noteq> []"
    by (rule headerPresentE)
  from p(5) obtain v5 where v5: "hdrs ''referrer-policy'' = Some v5" "v5 \<noteq> []"
    by (rule headerPresentE)
  from p(6) obtain v6 where v6: "hdrs ''permissions-policy'' = Some v6" "v6 \<noteq> []"
    by (rule headerPresentE)
  from p(7) obtain v7 where v7: "hdrs ''x-xss-protection'' = Some v7" "v7 \<noteq> []"
    by (rule headerPresentE)
  define q1 where "q1 = evaluateCSPQuality v1"
  define q2 where "q2 = evaluateHSTSQuality v2"
  define q3 where "q3 = evaluateHeaderQuality ''x-frame-options'' v3"
  have q: "evaluateHeaderQuality ''content-security-policy'' v1 = q1"
    "evaluateHeaderQuality ''strict-transport-security'' v2 = q2"
    "evaluateHeaderQuality ''x-content-type-options'' v4 = 1"
    "evaluateHeaderQuality ''referrer-policy'' v5 = 1"
    "evaluateHeaderQuality ''permissions-policy'' v6 = 1"
    "evaluateHeaderQuality ''x-xss-protection'' v7 = 1"
    using v4 v5 v6 v7 by (simp_all add: evaluateHeaderQuality_def q1_def q2_def)
  have f: "fold (headerStep hdrs context) HEADER_WEIGHTS (0, 0) =
      (25 * q1 + 20 * q2 + 15 * q3 + 29, 0)"
    unfolding HEADER_WEIGHTS_def fold_simps comp_def id_def
    by (simp only: headerStep_present [where hdrs = hdrs, OF v1]
          headerStep_present [where hdrs = hdrs, OF v2]
          headerStep_present [where hdrs = hdrs, OF v3]
          headerStep_present [where hdrs = hdrs, OF v4]
          headerStep_present [where hdrs = hdrs, OF v5]
          headerStep_present [where hdrs = hdrs, OF v6]
          headerStep_present [where hdrs = hdrs, OF v7] q q3_def [symmetric]) simp
  have b1: "1 / 2 \<le> q1" unfolding q1_def by (rule csp_quality_lower)
  have b2: "3 / 10 \<le> q2" unfolding q2_def by (rule hsts_quality_lower)
  have b3: "7 / 10 \<le> q3" unfolding q3_def by (simp add: evaluateHeaderQuality_def)
  have "(58::rat) \<le> 25 * q1 + 20 * q2 + 15 * q3 + 29 + 0" using b1 b2 b3 by linarith
  then have "Math_round 58 \<le> Math_round (25 * q1 + 20 * q2 + 15 * q3 + 29 + 0)"
    by (rule Math_round_mono)
  moreover have "Math_round 58 = 58" by (rule Math_round_numeral)
  ultimately show ?thesis
    by (simp add: evaluateHeadersRealistically_def f)
qed

lemma bonus_no_vulnerabilities: "3 \<le> calculateContextualBonus hdrs no_vulnerabilities context"
proof -
  have a: "\<And>b (x::int) k. 0 \<le> k \<Longrightarrow> 3 \<le> x \<Longrightarrow> 3 \<le> (if b then x + k else x)" by simp
  have "3 \<le> (case hdrs ''strict-transport-security'' of
                      Some v \<Rightarrow> if str_includes v ''max-age'' then (0::int) + 5 else 0
                    | None \<Rightarrow> 0) + 3"
    by (simp split: option.splits)
  then show ?thesis
    unfolding calculateContextualBonus_def Let_def no_vulnerabilities_def
    by (cases "context") (simp_all add: a)
qed

lemma no_vulnerabilities_penalty: "evaluateVulnerabilitiesRealistically no_vulnerabilities = 0"
  by (simp add: evaluateVulnerabilitiesRealistically_def no_vulnerabilities_def Math_round_of_int)

text \<open>
  C7, as the code has it. With no finding, every one of the seven tracked headers present
  with a non-empty value and site type "enterprise-smb", the overall score is at least 90
  and the risk level is the string "Bajo": the scorer names its risk levels in Spanish.
\<close>

theorem clean_enterprise_smb_score:
  assumes "list_all (\<lambda>(n, w, c). headerPresent hdrs n) HEADER_WEIGHTS"
  shows "num_ge (overall (calculateRealisticScore hdrs no_vulnerabilities ''enterprise-smb'' context)) 90
    \<and> riskLevel (calculateRealisticScore hdrs no_vulnerabilities ''enterprise-smb'' context) = ''Bajo''"
proof -
  have b: "siteBaseline ''enterprise-smb'' = TableValue 70"
    by (simp add: siteBaseline_def SITE_BASELINES_def)
  have s: "58 \<le> score (evaluateHeadersRealistically hdrs context)"
    using assms by (rule all_present_score)
  have bo: "3 \<le> calculateContextualBonus hdrs no_vulnerabilities context"
    by (rule bonus_no_vulnerabilities)
  have t: "max 0 (min 100 (70
        + score (evaluateHeadersRealistically hdrs context)
        + evaluateVulnerabilitiesRealistically no_vulnerabilities
        + calculateContextualBonus hdrs no_vulnerabilities context)) = 100"
    unfolding no_vulnerabilities_penalty using s bo by simp
  show ?thesis
    unfolding calculateRealisticScore_def Let_def b BaselineValue.case t
    by (simp add: Math_round_numeral calculateRiskLevel_def no_vulnerabilities_def)
qed

theorem clean_enterprise_smb_score_witness:
  "list_all (\<lambda>(n, w, c). headerPresent example_all_headers n) HEADER_WEIGHTS
   \<and> num_ge (overall (calculateRealisticScore example_all_headers no_vulnerabilities ''enterprise-smb'' None)) 90
   \<and> riskLevel (calculateRealisticScore example_all_headers no_vulnerabilities ''enterprise-smb'' None) = ''Bajo''"
proof -
  have h: "list_all (\<lambda>(n, w, c). headerPresent example_all_headers n) HEADER_WEIGHTS"
    by (simp add: HEADER_WEIGHTS_def headerPresent_def example_all_headers_def)
  from clean_enterprise_smb_score [OF h, of None] h show ?thesis by simp
qed

text \<open>
  C7, as the specification states it, fails: for the example with all seven headers the
  risk level is not the string "Low".
\<close>

theorem clean_enterprise_smb_not_Low:
  "\<not> (num_ge (overall (calculateRealisticScore example_all_headers no_vulnerabilities ''enterprise-smb'' None)) 90
     \<and> riskLevel (calculateRealisticScore example_all_headers no_vulnerabilities ''enterprise-smb'' None) = ''Low'')"
  by code_simp

section \<open>The grade tables\<close>

text \<open>
  C8. \<open>calculateGrade\<close> is a table of eleven grades with fixed thresholds, from A+ for a
  score of at least 95 down to F for a score below 50, and it is monotonic: a score that
  is at least another score gets a grade that is at least as good.
\<close>

theorem calculateGrade_table_monotonic:
  "(y \<le> x \<longrightarrow> gradeRank (calculateGrade y) \<le> gradeRank (calculateGrade x))
  \<and> calculateGrade x \<in> set gradeTable \<and> distinct gradeTable \<and> length gradeTable = 11
  \<and> (calculateGrade x = ''A+'' \<longleftrightarrow> 95 \<le> x)
  \<and> (calculateGrade x = ''A'' \<longleftrightarrow> 90 \<le> x \<and> x < 95)
  \<and> (calculateGrade x = ''A-'' \<longleftrightarrow> 85 \<le> x \<and> x < 90)
  \<and> (calculateGrade x = ''B+'' \<longleftrightarrow> 80 \<le> x \<and> x < 85)
  \<and> (calculateGrade x = ''B'' \<longleftrightarrow> 75 \<le> x \<and> x < 80)
  \<and> (calculateGrade x = ''B-'' \<longleftrightarrow> 70 \<le> x \<and> x < 75)
  \<and> (calculateGrade x = ''C+'' \<longleftrightarrow> 65 \<le> x \<and> x < 70)
  \<and> (calculateGrade x = ''C'' \<longleftrightarrow> 60 \<le> x \<and> x < 65)
  \<and> (calculateGrade x = ''C-'' \<longleftrightarrow> 55 \<le> x \<and> x < 60)
  \<and> (calculateGrade x = ''D'' \<longleftrightarrow> 50 \<le> x \<and> x < 55)
  \<and> (calculateGrade x = ''F'' \<longleftrightarrow> x < 50)"
  by (simp add: calculateGrade_def gradeRank_def gradeTable_def)

theorem calculateGrade_table_monotonic_witness:
  "(71::rat) \<le> 92 \<and> calculateGrade 71 = ''B-'' \<and> calculateGrade 92 = ''A''
   \<and> gradeRank (calculateGrade 71) \<le> gradeRank (calculateGrade 92)"
  using calculateGrade_table_monotonic [of 71 92]
  by (simp add: calculateGrade_def)

text \<open>
  C10. The grade function of the main application, \<open>getScoreGrade\<close>, and the scorer's
  \<open>calculateGrade\<close> return the same grade for every score.
\<close>

theorem getScoreGrade_eq_calculateGrade: "getScoreGrade s = calculateGrade s"
  by (simp add: getScoreGrade_def calculateGrade_def)

section \<open>The site classifier\<close>

text \<open>
  When the technology list holds the names as strings, a list with React or Vue.js and
  no products gives the SaaS platform type.
\<close>

lemma determineSiteType_saas_strings:
  assumes "ecommerce data = Some e" "totalProducts e = 0"
    and "TechString ''React'' \<in> set (technologies data) \<or> TechString ''Vue.js'' \<in> set (technologies data)"
  shows "determineSiteType data = ''saas-platform''"
  using assms by (auto simp: determineSiteType_def techIncludes_def list_ex_iff)

text \<open>
  C9. The main application passes a technology list of records. For a page with
  \<open>totalProducts = 0\<close> whose only detected technology is the record named React,
  \<open>determineSiteType\<close> does not return "saas-platform" but "enterprise-smb".
\<close>

theorem determineSiteType_react_record:
  "ecommerce example_react_site = Some \<lparr> paymentMethods = [], totalProducts = 0 \<rparr>
   \<and> technologies example_react_site = [TechRecord ''React'' (Some ''18.2.0'') (Some ''18.2.0'')]
   \<and> determineSiteType example_react_site = ''enterprise-smb''"
  by (simp add: example_react_site_def determineSiteType_def techIncludes_def)


section \<open>The credential scanner and Google Maps keys\<close>

text \<open>
  A match whose extracted value is on the allowlist or names a legitimate service is
  discarded.
\<close>

lemma keepMatch_discards_safe:
  assumes "keyValueOf m = Some k" and "isSafeKnownPattern k \<or> isLegitimateService k"
  shows "\<not> keepMatch m"
  using assms by (auto simp: keepMatch_def)

text \<open>
  When the key name is not followed by a quote, the value extracted from the match is the
  Maps key and no finding is created.
\<close>

lemma credentialFindings_bare_password:
  "credentialFindings example_password_html_bare = []"
  by code_simp

text \<open>
  C5. The string of the example is a Google Maps key: it matches
  \<open>/^AIzaSy[a-zA-Z0-9_-]{35}$/\<close>. On the page \<open>"password": "AIzaSy..."\<close> the password
  pattern matches from \<open>password\<close> to the closing quote; the value extracted from that
  match is the text between the quote after the key name and the quote that opens the
  value, a colon and a space, so the match is kept, and the scanner creates a critical
  HARDCODED CREDENTIAL finding for line 1.
\<close>

theorem credential_scanner_reports_maps_key:
  "fullMatch mapsKeyPattern example_maps_key
   \<and> map keyValueOf (matchAll True passwordPattern example_password_html) = [Some '': '']
   \<and> map (\<lambda>v. (name v, take 27 (vulnerability v), severity v, lineNumbers v))
         (credentialFindings example_password_html) =
       [('' HARDCODED CREDENTIAL'', ''Hardcoded Password detected'', Sev_critical, Some [1])]"
  by code_simp

end
